theory Spec2Isabelle
  imports Complex_Main "HOL-Library.Char_ord" "HOL-Library.List_Lexorder" "HOL-Library.Multiset"
begin

section \<open>TravelCoin: the FX layer (fx_api.py) and the credential helpers (app.py)\<close>

text \<open>
  The development embeds the functions of \<^verbatim>\<open>fx_api.py\<close> and the password helpers,
  \<^verbatim>\<open>signup\<close> and \<^verbatim>\<open>login\<close> of \<^verbatim>\<open>app.py\<close>. Python names that start with an underscore
  lose it (\<^verbatim>\<open>_to_decimal\<close> is \<open>to_decimal\<close>, \<^verbatim>\<open>_get_json\<close> is \<open>get_json\<close>).
  Exceptions are values of the type \<open>error\<close>; a function that may raise returns
  \<open>error + 'a\<close>, with \<open>Inl\<close> for the exception.
\<close>

subsection \<open>Strings\<close>

text \<open>
  A Python \<^verbatim>\<open>str\<close> is a \<open>string\<close>, one \<open>char\<close> per code point; the model covers the
  ASCII range, on which \<^verbatim>\<open>str.upper\<close> maps \<^verbatim>\<open>a..z\<close> to \<^verbatim>\<open>A..Z\<close> and leaves every other
  character alone. Strings are ordered as Python orders them: lexicographically by code point.
\<close>

definition upper_char :: "char \<Rightarrow> char" where
  "upper_char c =
     (let n = (of_char c :: nat) in if 97 \<le> n \<and> n \<le> 122 then char_of (n - 32) else c)"

definition upper :: "string \<Rightarrow> string" where
  "upper s = map upper_char s"

definition lower_char :: "char \<Rightarrow> char" where
  "lower_char c =
     (let n = (of_char c :: nat) in if 65 \<le> n \<and> n \<le> 90 then char_of (n + 32) else c)"

definition lower :: "string \<Rightarrow> string" where
  "lower s = map lower_char s"

definition is_digit :: "char \<Rightarrow> bool" where
  "is_digit c = (let n = (of_char c :: nat) in 48 \<le> n \<and> n \<le> 57)"

definition digit_val :: "char \<Rightarrow> nat" where
  "digit_val c = of_char c - 48"

definition digit_char :: "nat \<Rightarrow> char" where
  "digit_char d = char_of (48 + d)"

text \<open>\<^verbatim>\<open>str.isspace\<close> on ASCII: tab, line feed, vertical tab, form feed, carriage return,
  the four separators \<^verbatim>\<open>0x1c..0x1f\<close> and the space.\<close>

definition is_space :: "char \<Rightarrow> bool" where
  "is_space c = (let n = (of_char c :: nat) in (9 \<le> n \<and> n \<le> 13) \<or> (28 \<le> n \<and> n \<le> 32))"

definition strip :: "string \<Rightarrow> string" where
  "strip s = rev (dropWhile is_space (rev (dropWhile is_space s)))"

text \<open>\<^verbatim>\<open>int(s)\<close> on a string of digits (the empty string reads as 0 where the decimal
  constructor applies it to \<^verbatim>\<open>intpart + fracpart\<close>, which holds at least one digit).\<close>

definition nat_of_digits :: "string \<Rightarrow> nat" where
  "nat_of_digits s = foldl (\<lambda>acc c. 10 * acc + digit_val c) 0 s"

text \<open>\<^verbatim>\<open>str(n)\<close> for a natural number: its decimal digits, \<^verbatim>\<open>"0"\<close> for zero.\<close>

fun digits_of_nat :: "nat \<Rightarrow> string" where
  "digits_of_nat n =
     (if n < 10 then [digit_char n] else digits_of_nat (n div 10) @ [digit_char (n mod 10)])"

declare digits_of_nat.simps [simp del]

definition str_int :: "int \<Rightarrow> string" where
  "str_int i = (if i < 0 then CHR ''-'' # digits_of_nat (nat (- i)) else digits_of_nat (nat i))"

subsection \<open>Exceptions\<close>

datatype error =
    HTTPError nat string string   \<comment> \<open>status code, url, body excerpt\<close>
  | RetryError                    \<comment> \<open>retries exhausted on a status of the force list\<close>
  | ConnectionError               \<comment> \<open>connection-level failure after the retries\<close>
  | ValueError
  | TypeError
  | KeyError
  | AttributeError
  | IndexError
  | InvalidOperation              \<comment> \<open>\<^verbatim>\<open>decimal.InvalidOperation\<close>\<close>
  | DivisionByZero                \<comment> \<open>\<^verbatim>\<open>decimal.DivisionByZero\<close>\<close>
  | Overflow                      \<comment> \<open>\<^verbatim>\<open>decimal.Overflow\<close>\<close>

subsection \<open>Exact decimals\<close>

text \<open>
  A \<^verbatim>\<open>decimal.Decimal\<close> is a sign, a coefficient and an exponent (the value is
  \<open>\<plusminus> coefficient \<times> 10\<^sup>e\<^sup>x\<^sup>p\<close>), an infinity, or a NaN (sign, signalling flag, payload).
  The module sets \<^verbatim>\<open>getcontext().prec = 28\<close>; every other field of the context keeps its
  default: rounding \<^verbatim>\<open>ROUND_HALF_EVEN\<close>, \<^verbatim>\<open>Emax = 999999\<close>, \<^verbatim>\<open>Emin = -999999\<close>, no clamping,
  and the traps \<^verbatim>\<open>InvalidOperation\<close>, \<^verbatim>\<open>DivisionByZero\<close> and \<^verbatim>\<open>Overflow\<close> (a trapped
  signal is raised as an exception, the others only set a flag). The operations follow
  the General Decimal Arithmetic rules as the \<^verbatim>\<open>decimal\<close> module implements them: the exact
  result, then one rounding to the context (\<open>dfix\<close>, the method \<^verbatim>\<open>_fix\<close>).
\<close>

datatype decimal = Dec bool nat int | DInf bool | DNaN bool bool nat

definition prec :: nat where "prec = 28"
definition Emax :: int where "Emax = 999999"
definition Emin :: int where "Emin = - 999999"
definition Etiny :: int where "Etiny = Emin - int prec + 1"
definition Etop :: int where "Etop = Emax - int prec + 1"

text \<open>The value of a finite decimal (0 on the others, where no caller reads it).\<close>

definition dval :: "decimal \<Rightarrow> rat" where
  "dval d = (case d of Dec s c e \<Rightarrow> (if s then - 1 else 1) * of_nat c * 10 powi e | _ \<Rightarrow> 0)"

definition is_finite :: "decimal \<Rightarrow> bool" where
  "is_finite d = (case d of Dec s c e \<Rightarrow> True | _ \<Rightarrow> False)"

text \<open>\<^verbatim>\<open>len(str(n))\<close>: the number of decimal digits of a coefficient.\<close>

fun ndigits :: "nat \<Rightarrow> nat" where
  "ndigits n = (if n < 10 then 1 else Suc (ndigits (n div 10)))"

declare ndigits.simps [simp del]

text \<open>\<open>rhe_div c p\<close> is \<open>c / p\<close> rounded to an integer, ties to the even neighbour
  (\<^verbatim>\<open>ROUND_HALF_EVEN\<close> on the digits dropped from a coefficient, \<open>p\<close> a power of ten).\<close>

definition rhe_div :: "nat \<Rightarrow> nat \<Rightarrow> nat" where
  "rhe_div c p =
     (let q = c div p; r = c mod p
      in if p < 2 * r \<or> (2 * r = p \<and> odd q) then q + 1 else q)"

text \<open>
  \<^verbatim>\<open>Decimal._fix\<close>: round to the context. A zero only has its exponent clamped; a
  coefficient of more than \<open>prec\<close> digits (or an exponent below \<open>Etiny\<close>) is rounded half-even
  to the exponent \<open>exp_min\<close>; a result above \<open>Emax\<close> raises \<^verbatim>\<open>Overflow\<close>. A NaN keeps the last
  \<open>prec\<close> digits of its payload.
\<close>

definition dfix :: "decimal \<Rightarrow> error + decimal" where
  "dfix d =
     (case d of
        Dec s c e \<Rightarrow>
          if c = 0 then Inr (Dec s 0 (min (max e Etiny) Emax))
          else
            let exp_min = int (ndigits c) + e - int prec in
            if Etop < exp_min then Inl Overflow
            else
              let exp_min = max exp_min Etiny in
              if e < exp_min then
                let coeff = rhe_div c (10 ^ nat (exp_min - e));
                    carry = (prec < ndigits coeff);
                    coeff = (if carry then coeff div 10 else coeff);
                    exp_min = (if carry then exp_min + 1 else exp_min)
                in if Etop < exp_min then Inl Overflow else Inr (Dec s coeff exp_min)
              else Inr d
      | DInf s \<Rightarrow> Inr d
      | DNaN s sg p \<Rightarrow> Inr (DNaN s sg (p mod 10 ^ prec)))"

text \<open>\<^verbatim>\<open>Decimal._check_nans\<close>: a signalling NaN operand raises, a quiet one is the result.\<close>

definition check_nans :: "decimal \<Rightarrow> decimal \<Rightarrow> (error + decimal) option" where
  "check_nans a b =
     (case a of
        DNaN sa sga pa \<Rightarrow>
          if sga then Some (Inl InvalidOperation)
          else (case b of DNaN sb True pb \<Rightarrow> Some (Inl InvalidOperation) | _ \<Rightarrow> Some (dfix a))
      | _ \<Rightarrow>
          (case b of
             DNaN sb sgb pb \<Rightarrow> if sgb then Some (Inl InvalidOperation) else Some (dfix b)
           | _ \<Rightarrow> None))"

definition is_zero :: "decimal \<Rightarrow> bool" where
  "is_zero d = (case d of Dec s c e \<Rightarrow> c = 0 | _ \<Rightarrow> False)"

definition dsign :: "decimal \<Rightarrow> bool" where
  "dsign d = (case d of Dec s c e \<Rightarrow> s | DInf s \<Rightarrow> s | DNaN s sg p \<Rightarrow> s)"

definition copy_negate :: "decimal \<Rightarrow> decimal" where
  "copy_negate d =
     (case d of Dec s c e \<Rightarrow> Dec (\<not> s) c e | DInf s \<Rightarrow> DInf (\<not> s) | DNaN s sg p \<Rightarrow> DNaN (\<not> s) sg p)"

definition copy_abs :: "decimal \<Rightarrow> decimal" where
  "copy_abs d =
     (case d of Dec s c e \<Rightarrow> Dec False c e | DInf s \<Rightarrow> DInf False | DNaN s sg p \<Rightarrow> DNaN False sg p)"

text \<open>\<^verbatim>\<open>Decimal.__mul__\<close>.\<close>

definition dmul :: "decimal \<Rightarrow> decimal \<Rightarrow> error + decimal" where
  "dmul a b =
     (case check_nans a b of
        Some r \<Rightarrow> r
      | None \<Rightarrow>
          (case (a, b) of
             (Dec sa ca ea, Dec sb cb eb) \<Rightarrow> dfix (Dec (sa \<noteq> sb) (ca * cb) (ea + eb))
           | (DInf sa, _) \<Rightarrow> if is_zero b then Inl InvalidOperation else Inr (DInf (sa \<noteq> dsign b))
           | (_, DInf sb) \<Rightarrow> if is_zero a then Inl InvalidOperation else Inr (DInf (dsign a \<noteq> sb))
           | _ \<Rightarrow> Inl InvalidOperation))"

text \<open>
  \<^verbatim>\<open>Decimal.__add__\<close>: the operands are aligned to the smaller exponent and added exactly,
  then rounded. A zero operand leaves the other one, rescaled to at most \<open>prec + 1\<close> digits
  below its exponent; an exact zero sum is positive unless both operands are negative zeros.
\<close>

definition dadd :: "decimal \<Rightarrow> decimal \<Rightarrow> error + decimal" where
  "dadd a b =
     (case check_nans a b of
        Some r \<Rightarrow> r
      | None \<Rightarrow>
          (case (a, b) of
             (Dec sa ca ea, Dec sb cb eb) \<Rightarrow>
               let ex = min ea eb in
               if ca = 0 \<and> cb = 0 then dfix (Dec (sa \<and> sb) 0 ex)
               else if ca = 0 then
                 (let ex' = max ex (eb - int prec - 1)
                  in dfix (Dec sb (cb * 10 ^ nat (eb - ex')) ex'))
               else if cb = 0 then
                 (let ex' = max ex (ea - int prec - 1)
                  in dfix (Dec sa (ca * 10 ^ nat (ea - ex')) ex'))
               else
                 let ia = int ca * 10 ^ nat (ea - ex); ib = int cb * 10 ^ nat (eb - ex) in
                 if sa \<noteq> sb then
                   (if ia = ib then dfix (Dec False 0 ex)
                    else if ia < ib then dfix (Dec sb (nat (ib - ia)) ex)
                    else dfix (Dec sa (nat (ia - ib)) ex))
                 else dfix (Dec sa (nat (ia + ib)) ex)
           | (DInf sa, DInf sb) \<Rightarrow> if sa \<noteq> sb then Inl InvalidOperation else Inr a
           | (DInf sa, _) \<Rightarrow> Inr a
           | (_, DInf sb) \<Rightarrow> Inr b
           | _ \<Rightarrow> Inl InvalidOperation))"

text \<open>\<^verbatim>\<open>Decimal.__sub__\<close>: \<^verbatim>\<open>self + other.copy_negate()\<close>, after the NaN check.\<close>

definition dsub :: "decimal \<Rightarrow> decimal \<Rightarrow> error + decimal" where
  "dsub a b = (case check_nans a b of Some r \<Rightarrow> r | None \<Rightarrow> dadd a (copy_negate b))"

text \<open>
  \<^verbatim>\<open>Decimal.__truediv__\<close>: the quotient is computed to \<open>prec + 1\<close> or \<open>prec + 2\<close> digits;
  when the division is inexact and the last digit is 0 or 5, the digit is bumped so that
  the rounding to \<open>prec\<close> digits sees that a remainder exists. An exact quotient is moved
  towards the ideal exponent \<open>ea - eb\<close> by removing trailing zeros.
\<close>

function reduce_exact :: "nat \<Rightarrow> int \<Rightarrow> int \<Rightarrow> nat \<times> int" where
  "reduce_exact coeff ex ideal =
     (if ex < ideal \<and> coeff mod 10 = 0 then reduce_exact (coeff div 10) (ex + 1) ideal
      else (coeff, ex))"
  by pat_completeness auto
termination
  by (relation "measure (\<lambda>(coeff, ex, ideal). nat (ideal - ex))") auto

declare reduce_exact.simps [simp del]

definition ddiv :: "decimal \<Rightarrow> decimal \<Rightarrow> error + decimal" where
  "ddiv a b =
     (case check_nans a b of
        Some r \<Rightarrow> r
      | None \<Rightarrow>
          (case (a, b) of
             (Dec sa ca ea, Dec sb cb eb) \<Rightarrow>
               if cb = 0 then (if ca = 0 then Inl InvalidOperation else Inl DivisionByZero)
               else if ca = 0 then dfix (Dec (sa \<noteq> sb) 0 (ea - eb))
               else
                 let shift = int (ndigits cb) - int (ndigits ca) + int prec + 1;
                     ex = ea - eb - shift;
                     num = (if 0 \<le> shift then ca * 10 ^ nat shift else ca);
                     den = (if 0 \<le> shift then cb else cb * 10 ^ nat (- shift));
                     coeff = num div den;
                     remainder = num mod den
                 in if remainder \<noteq> 0
                    then dfix (Dec (sa \<noteq> sb) (if coeff mod 5 = 0 then coeff + 1 else coeff) ex)
                    else (case reduce_exact coeff ex (ea - eb) of
                            (coeff', ex') \<Rightarrow> dfix (Dec (sa \<noteq> sb) coeff' ex'))
           | (DInf sa, DInf sb) \<Rightarrow> Inl InvalidOperation
           | (DInf sa, _) \<Rightarrow> Inr (DInf (sa \<noteq> dsign b))
           | (_, DInf sb) \<Rightarrow> Inr (Dec (dsign a \<noteq> sb) 0 Etiny)
           | _ \<Rightarrow> Inl InvalidOperation))"

text \<open>
  \<^verbatim>\<open>Decimal._rescale\<close> on a finite number: the coefficient of the same value at the
  exponent \<open>ex\<close>, padded with zeros or rounded half-even.
\<close>

definition rescale :: "nat \<Rightarrow> int \<Rightarrow> int \<Rightarrow> nat" where
  "rescale c e ex =
     (if c = 0 then 0
      else if ex \<le> e then c * 10 ^ nat (e - ex)
      else rhe_div c (10 ^ nat (ex - e)))"

text \<open>
  \<^verbatim>\<open>Decimal.quantize\<close>: the first operand at the exponent of the second. The result must
  fit the context: more than \<open>prec\<close> digits raise \<^verbatim>\<open>InvalidOperation\<close>.
\<close>

definition adjusted :: "nat \<Rightarrow> int \<Rightarrow> int" where
  "adjusted c e = e + int (ndigits c) - 1"

definition quantize :: "decimal \<Rightarrow> decimal \<Rightarrow> error + decimal" where
  "quantize a q =
     (case check_nans a q of
        Some r \<Rightarrow> r
      | None \<Rightarrow>
          (case (a, q) of
             (Dec s c e, Dec sq cq eq) \<Rightarrow>
               if \<not> (Etiny \<le> eq \<and> eq \<le> Emax) then Inl InvalidOperation
               else if c = 0 then dfix (Dec s 0 eq)
               else if Emax < adjusted c e then Inl InvalidOperation
               else if int prec < adjusted c e - eq + 1 then Inl InvalidOperation
               else
                 let c' = rescale c e eq in
                 if Emax < adjusted c' eq then Inl InvalidOperation
                 else if prec < ndigits c' then Inl InvalidOperation
                 else dfix (Dec s c' eq)
           | (DInf sa, DInf sb) \<Rightarrow> Inr a
           | _ \<Rightarrow> Inl InvalidOperation))"

text \<open>
  Comparisons are exact. \<^verbatim>\<open>==\<close> is false on a quiet NaN and raises on a signalling one;
  \<^verbatim>\<open><\<close> and \<^verbatim>\<open>>\<close> raise \<^verbatim>\<open>InvalidOperation\<close> on any NaN.
\<close>

definition is_nan :: "decimal \<Rightarrow> bool" where
  "is_nan d = (case d of DNaN s sg p \<Rightarrow> True | _ \<Rightarrow> False)"

text \<open>\<^verbatim>\<open>Decimal._cmp\<close> on two numbers that are not NaN: is the first strictly below the second.\<close>

definition cmp_less :: "decimal \<Rightarrow> decimal \<Rightarrow> bool" where
  "cmp_less a b =
     (case (a, b) of
        (DInf sa, DInf sb) \<Rightarrow> sa \<and> \<not> sb
      | (DInf sa, _) \<Rightarrow> sa
      | (_, DInf sb) \<Rightarrow> \<not> sb
      | _ \<Rightarrow> dval a < dval b)"

definition dec_eq :: "decimal \<Rightarrow> decimal \<Rightarrow> error + bool" where
  "dec_eq a b =
     (case check_nans a b of
        Some (Inl e) \<Rightarrow> Inl e
      | Some (Inr n) \<Rightarrow> Inr False
      | None \<Rightarrow> Inr (\<not> cmp_less a b \<and> \<not> cmp_less b a))"

definition dec_lt :: "decimal \<Rightarrow> decimal \<Rightarrow> error + bool" where
  "dec_lt a b = (if is_nan a \<or> is_nan b then Inl InvalidOperation else Inr (cmp_less a b))"

definition dec_gt :: "decimal \<Rightarrow> decimal \<Rightarrow> error + bool" where
  "dec_gt a b = (if is_nan a \<or> is_nan b then Inl InvalidOperation else Inr (cmp_less b a))"

text \<open>\<^verbatim>\<open>abs(d)\<close>: \<^verbatim>\<open>Decimal.__abs__\<close>, the absolute value rounded to the context.\<close>

definition dabs :: "decimal \<Rightarrow> error + decimal" where
  "dabs d =
     (case d of
        DNaN s sg p \<Rightarrow> if sg then Inl InvalidOperation else dfix d
      | _ \<Rightarrow> dfix (copy_abs d))"

subsection \<open>Decimals from text\<close>

text \<open>
  \<^verbatim>\<open>Decimal(s)\<close> for a string: surrounding whitespace is stripped, underscores are removed,
  and the rest is an optional sign followed by digits with an optional fraction and an
  optional exponent, or (in any casing) \<^verbatim>\<open>Inf\<close>, \<^verbatim>\<open>Infinity\<close>, \<^verbatim>\<open>NaN\<close> or \<^verbatim>\<open>sNaN\<close> with
  optional payload digits. The conversion is exact (the context is not applied);
  anything else raises \<^verbatim>\<open>InvalidOperation\<close>.
\<close>

definition parse_exponent :: "string \<Rightarrow> int option" where
  "parse_exponent s =
     (case s of
        [] \<Rightarrow> None
      | c # r \<Rightarrow>
          if c = CHR ''-'' then
            (if r \<noteq> [] \<and> list_all is_digit r then Some (- int (nat_of_digits r)) else None)
          else if c = CHR ''+'' then
            (if r \<noteq> [] \<and> list_all is_digit r then Some (int (nat_of_digits r)) else None)
          else if list_all is_digit s then Some (int (nat_of_digits s))
          else None)"

definition parse_number :: "bool \<Rightarrow> string \<Rightarrow> decimal option" where
  "parse_number sg s =
     (let intpart = takeWhile is_digit s;
          r1 = dropWhile is_digit s;
          has_frac = (case r1 of [] \<Rightarrow> False | c # r \<Rightarrow> c = CHR ''.'');
          fracpart = (if has_frac then takeWhile is_digit (drop 1 r1) else []);
          r2 = (if has_frac then dropWhile is_digit (drop 1 r1) else r1);
          coeff = nat_of_digits (intpart @ fracpart)
      in if intpart = [] \<and> fracpart = [] then None
         else
           (case r2 of
              [] \<Rightarrow> Some (Dec sg coeff (- int (length fracpart)))
            | c # r3 \<Rightarrow>
                if c = CHR ''e'' \<or> c = CHR ''E'' then
                  (case parse_exponent r3 of
                     None \<Rightarrow> None
                   | Some ex \<Rightarrow> Some (Dec sg coeff (ex - int (length fracpart))))
                else None))"

definition parse_special :: "bool \<Rightarrow> string \<Rightarrow> decimal option" where
  "parse_special sg s =
     (let l = lower s in
      if l = ''inf'' \<or> l = ''infinity'' then Some (DInf sg)
      else if take 3 l = ''nan'' \<and> list_all is_digit (drop 3 l)
        then Some (DNaN sg False (nat_of_digits (drop 3 l)))
      else if take 4 l = ''snan'' \<and> list_all is_digit (drop 4 l)
        then Some (DNaN sg True (nat_of_digits (drop 4 l)))
      else None)"

definition decimal_of_str :: "string \<Rightarrow> error + decimal" where
  "decimal_of_str s =
     (let t = filter (\<lambda>c. c \<noteq> CHR ''_'') (strip s);
          sg = (case t of [] \<Rightarrow> False | c # r \<Rightarrow> c = CHR ''-'');
          signed = (case t of [] \<Rightarrow> False | c # r \<Rightarrow> c = CHR ''-'' \<or> c = CHR ''+'');
          body = (if signed then drop 1 t else t)
      in case parse_number sg body of
           Some d \<Rightarrow> Inr d
         | None \<Rightarrow>
             (case parse_special sg body of
                Some d \<Rightarrow> Inr d
              | None \<Rightarrow> Inl InvalidOperation))"


subsection \<open>Floating-point numbers and their \<^verbatim>\<open>repr\<close>\<close>

text \<open>
  A Python \<^verbatim>\<open>float\<close> is an IEEE 754 double: \<open>Flt s m e\<close> is \<open>\<plusminus> m \<times> 2\<^sup>e\<close> in canonical
  form (\<open>is_double\<close>: a 53-bit significand, normalised unless the exponent is the least
  one), or an infinity, or a NaN.
\<close>

datatype pyfloat = Flt bool nat int | FInf bool | FNaN



text \<open>
  The digit search compares numbers of the form \<open>c \<times> 2\<^sup>f\<close> and \<open>d \<times> 10\<^sup>k\<close> exactly, in
  integer arithmetic: \<open>bin_le c f d k\<close> is \<open>c \<times> 2\<^sup>f \<le> d \<times> 10\<^sup>k\<close> and \<open>bin_less\<close> is the strict
  comparison (a negative exponent moves its power to the other side).
\<close>

definition bin_le :: "nat \<Rightarrow> int \<Rightarrow> nat \<Rightarrow> int \<Rightarrow> bool" where
  "bin_le c f d k =
     (c * 2 ^ nat f * 10 ^ nat (- k) \<le> d * 10 ^ nat k * 2 ^ nat (- f))"

definition bin_less :: "nat \<Rightarrow> int \<Rightarrow> nat \<Rightarrow> int \<Rightarrow> bool" where
  "bin_less c f d k =
     (c * 2 ^ nat f * 10 ^ nat (- k) < d * 10 ^ nat k * 2 ^ nat (- f))"

text \<open>
  \<open>rounds_to m e d k\<close>: the decimal \<open>d \<times> 10\<^sup>k\<close>, read as a double with rounding to nearest
  (ties to the even significand), is the double \<open>m \<times> 2\<^sup>e\<close>. The interval ends halfway to
  the two neighbours, \<open>(2m \<plusminus> 1) \<times> 2\<^sup>e\<^sup>-\<^sup>1\<close>; just above a power of two the lower neighbour is
  twice as near, \<open>(4m - 1) \<times> 2\<^sup>e\<^sup>-\<^sup>2\<close>.
\<close>

definition rounds_to :: "nat \<Rightarrow> int \<Rightarrow> nat \<Rightarrow> int \<Rightarrow> bool" where
  "rounds_to m e d k =
     (let boundary = (m = 2 ^ 52 \<and> - 1074 < e);
          lo_c = (if boundary then 4 * m - 1 else 2 * m - 1);
          lo_f = (if boundary then e - 2 else e - 1)
      in if even m
         then bin_le lo_c lo_f d k \<and> \<not> bin_less (2 * m + 1) (e - 1) d k
         else bin_less lo_c lo_f d k \<and> \<not> bin_le (2 * m + 1) (e - 1) d k)"

text \<open>\<open>ilog10 m e\<close> is \<open>\<lfloor>log\<^sub>1\<^sub>0 (m \<times> 2\<^sup>e)\<rfloor>\<close> for \<open>m > 0\<close>: the digit counts of numerator and
  denominator give it up to one, and one comparison decides.\<close>

definition ilog10 :: "nat \<Rightarrow> int \<Rightarrow> int" where
  "ilog10 m e =
     (let g = int (ndigits (m * 2 ^ nat e)) - int (ndigits (2 ^ nat (- e)))
      in if bin_less m e 1 g then g - 1 else g)"

text \<open>
  \<^verbatim>\<open>repr\<close> of a float is the shortest digit string that reads back as the same double and,
  among the strings of that length, the nearest to it (ties to the even digit).
  \<open>candidate m e n\<close> looks at the two decimals of \<open>n\<close> significant digits around
  \<open>m \<times> 2\<^sup>e\<close>, \<open>d_lo \<times> 10\<^sup>k\<close> below and \<open>d_hi \<times> 10\<^sup>k\<close> above, where \<open>m \<times> 2\<^sup>e / 10\<^sup>k\<close> is the
  fraction \<open>num / den\<close>. \<open>shortest_from n\<close> tries \<open>n\<close>, \<open>n + 1\<close>, ... digits; 17 digits always
  identify a double, so the search stops there with the correctly rounded 17 digits.
\<close>

definition candidate :: "nat \<Rightarrow> int \<Rightarrow> nat \<Rightarrow> (nat \<times> int) option" where
  "candidate m e n =
     (let k = ilog10 m e - (int n - 1);
          num = m * 2 ^ nat e * 10 ^ nat (- k);
          den = 2 ^ nat (- e) * 10 ^ nat k;
          d_lo = num div den;
          d_hi = d_lo + 1;
          r = num mod den;
          lo_ok = rounds_to m e d_lo k;
          hi_ok = rounds_to m e d_hi k;
          nearest = (if 2 * r < den \<or> (2 * r = den \<and> even d_lo) then d_lo else d_hi)
      in if 17 \<le> n \<or> (lo_ok \<and> hi_ok) then Some (nearest, k)
         else if lo_ok then Some (d_lo, k)
         else if hi_ok then Some (d_hi, k)
         else None)"

function shortest_from :: "nat \<Rightarrow> int \<Rightarrow> nat \<Rightarrow> nat \<times> int" where
  "shortest_from m e n =
     (case candidate m e n of
        Some r \<Rightarrow> r
      | None \<Rightarrow> shortest_from m e (n + 1))"
  by pat_completeness auto
termination
proof (relation "measure (\<lambda>(m, e, n). 17 - n)")
  show "wf (measure (\<lambda>(m, e, n). 17 - n))" by simp
next
  fix m :: nat and e :: int and n :: nat
  assume "candidate m e n = None"
  then have "n < 17"
    by (auto simp: candidate_def Let_def split: if_splits)
  then show "((m, e, n + 1), (m, e, n)) \<in> measure (\<lambda>(m, e, n). 17 - n)"
    by simp
qed

declare shortest_from.simps [simp del]

text \<open>The digits without trailing zeros and the position of the decimal point
  (\<^verbatim>\<open>decpt\<close>): the value is \<open>0.digits \<times> 10\<^sup>d\<^sup>e\<^sup>c\<^sup>p\<^sup>t\<close>.\<close>

function strip_zeros :: "nat \<Rightarrow> int \<Rightarrow> nat \<times> int" where
  "strip_zeros d k = (if 0 < d \<and> d mod 10 = 0 then strip_zeros (d div 10) (k + 1) else (d, k))"
  by pat_completeness auto
termination
  by (relation "measure (\<lambda>(d, k). d)") auto

declare strip_zeros.simps [simp del]

definition exp_str :: "int \<Rightarrow> string" where
  "exp_str x =
     (let ds = digits_of_nat (nat \<bar>x\<bar>)
      in (if x < 0 then CHR ''-'' else CHR ''+'') # (if length ds < 2 then CHR ''0'' # ds else ds))"

definition format_short :: "string \<Rightarrow> int \<Rightarrow> string" where
  "format_short ds decpt =
     (if decpt \<le> - 4 \<or> 16 < decpt then
        take 1 ds @ (if length ds \<le> 1 then [] else CHR ''.'' # drop 1 ds)
        @ CHR ''e'' # exp_str (decpt - 1)
      else if decpt \<le> 0 then ''0.'' @ replicate (nat (- decpt)) CHR ''0'' @ ds
      else if int (length ds) \<le> decpt
        then ds @ replicate (nat decpt - length ds) CHR ''0'' @ ''.0''
      else take (nat decpt) ds @ CHR ''.'' # drop (nat decpt) ds)"

definition float_repr :: "pyfloat \<Rightarrow> string" where
  "float_repr f =
     (case f of
        FNaN \<Rightarrow> ''nan''
      | FInf s \<Rightarrow> (if s then ''-inf'' else ''inf'')
      | Flt s m e \<Rightarrow>
          (if s then ''-'' else []) @
          (if m = 0 then ''0.0''
           else case shortest_from m e 1 of
                  (d, k) \<Rightarrow> (case strip_zeros d k of
                     (d', k') \<Rightarrow> format_short (digits_of_nat d') (int (ndigits d') + k'))))"

subsection \<open>Python values and the decimal normaliser\<close>

text \<open>
  The values that reach the module: what \<^verbatim>\<open>json\<close> decodes (\<^verbatim>\<open>None\<close>, booleans, integers,
  floats, strings, lists, dictionaries with string keys, in insertion order) and
  \<^verbatim>\<open>Decimal\<close> objects.
\<close>

datatype pyval =
    PNone
  | PBool bool
  | PInt int
  | PFloat pyfloat
  | PStr string
  | PDecimal decimal
  | PList "pyval list"
  | PDict "(string \<times> pyval) list"

text \<open>
  \<^verbatim>\<open>_to_decimal\<close>. The \<^verbatim>\<open>isinstance\<close> tests are taken in the order of the source. A
  \<^verbatim>\<open>bool\<close> is an instance of \<^verbatim>\<open>int\<close>, so it takes the second branch, where \<^verbatim>\<open>str\<close> gives
  \<^verbatim>\<open>'True'\<close> or \<^verbatim>\<open>'False'\<close>.
\<close>

definition str_bool :: "bool \<Rightarrow> string" where
  "str_bool b = (if b then ''True'' else ''False'')"

definition to_decimal :: "pyval \<Rightarrow> error + decimal" where
  "to_decimal x =
     (case x of
        PDecimal d \<Rightarrow> Inr d
      | PBool b \<Rightarrow> decimal_of_str (str_bool b)
      | PInt i \<Rightarrow> decimal_of_str (str_int i)
      | PStr s \<Rightarrow> decimal_of_str s
      | PFloat f \<Rightarrow> decimal_of_str (float_repr f)
      | _ \<Rightarrow> Inl TypeError)"

text \<open>Sequencing of computations that may raise: the first exception ends the call.\<close>

definition ebind :: "error + 'a \<Rightarrow> ('a \<Rightarrow> error + 'b) \<Rightarrow> error + 'b" where
  "ebind r f = (case r of Inl e \<Rightarrow> Inl e | Inr v \<Rightarrow> f v)"

text \<open>\<^verbatim>\<open>x.get(key, default)\<close>: only a dictionary has the method.\<close>

definition py_get :: "pyval \<Rightarrow> string \<Rightarrow> pyval \<Rightarrow> error + pyval" where
  "py_get x key dflt =
     (case x of
        PDict kvs \<Rightarrow> (case map_of kvs key of Some v \<Rightarrow> Inr v | None \<Rightarrow> Inr dflt)
      | _ \<Rightarrow> Inl AttributeError)"

subsection \<open>The HTTP session and its retries\<close>

text \<open>
  The upstream is a function of the number of HTTP attempts made so far, the URL and the
  query parameters: it answers with a response or fails at the connection level (refused,
  reset, timed out). The state of the network, \<open>net\<close>, counts the attempts and logs the
  calls of \<^verbatim>\<open>_get_json\<close>.
\<close>

record response =
  status_code :: nat
  resp_url :: string
  resp_text :: string
  json_body :: "pyval option"   \<comment> \<open>\<open>None\<close>: the body is not JSON\<close>
  retry_after :: bool           \<comment> \<open>the response carries a \<^verbatim>\<open>Retry-After\<close> header\<close>

datatype attempt = Responded response | Failed

type_synonym params = "(string \<times> string) list option"

type_synonym upstream = "nat \<Rightarrow> string \<Rightarrow> params \<Rightarrow> attempt"

record net =
  attempts :: nat
  fetches :: "(string \<times> params) list"

text \<open>
  \<^verbatim>\<open>_build_session\<close> mounts an adapter with
  \<^verbatim>\<open>Retry(total=3, backoff_factor=0.3, status_forcelist=[429, 500, 502, 503, 504], allowed_methods=["GET"])\<close>.
  In urllib3, \<open>total\<close> is the number of retries allowed: each failed attempt takes one off
  (\<^verbatim>\<open>Retry.increment\<close>) and the request is given up when the count falls below zero
  (\<^verbatim>\<open>Retry.is_exhausted\<close>). A response is retried when its status is in the force list, or
  when it carries \<^verbatim>\<open>Retry-After\<close> with status 413, 429 or 503 and the count is not zero
  (\<^verbatim>\<open>Retry.is_retry\<close>). Exhaustion on a status raises \<^verbatim>\<open>RetryError\<close>, on a connection
  failure \<^verbatim>\<open>ConnectionError\<close>. The pauses between attempts are not modelled.
\<close>

record retry =
  total :: int
  backoff_factor :: rat
  status_forcelist :: "nat list"
  allowed_methods :: "string list"

definition build_session :: retry where
  "build_session =
     \<lparr> total = 3, backoff_factor = 3 / 10, status_forcelist = [429, 500, 502, 503, 504],
       allowed_methods = [''GET''] \<rparr>"

definition is_retry :: "retry \<Rightarrow> response \<Rightarrow> bool" where
  "is_retry r resp =
     (''GET'' \<in> set (allowed_methods r) \<and>
      (status_code resp \<in> set (status_forcelist r) \<or>
       (total r \<noteq> 0 \<and> retry_after resp \<and> status_code resp \<in> {413, 429, 503})))"

function session_get :: "upstream \<Rightarrow> retry \<Rightarrow> nat \<Rightarrow> string \<Rightarrow> params \<Rightarrow> (error + response) \<times> nat" where
  "session_get up r clock url ps =
     (case up clock url ps of
        Failed \<Rightarrow>
          if total r - 1 < 0 then (Inl ConnectionError, clock + 1)
          else session_get up (r\<lparr>total := total r - 1\<rparr>) (clock + 1) url ps
      | Responded resp \<Rightarrow>
          if is_retry r resp then
            (if total r - 1 < 0 then (Inl RetryError, clock + 1)
             else session_get up (r\<lparr>total := total r - 1\<rparr>) (clock + 1) url ps)
          else (Inr resp, clock + 1))"
  by pat_completeness auto
termination
  by (relation "measure (\<lambda>(up, r, clock, url, ps). nat (total r))") auto

declare session_get.simps [simp del]

text \<open>\<^verbatim>\<open>_raise_for_status_verbose\<close>: the exception, if any.\<close>

definition raise_for_status_verbose :: "response \<Rightarrow> error option" where
  "raise_for_status_verbose resp =
     (if 400 \<le> status_code resp
      then Some (HTTPError (status_code resp) (resp_url resp) (take 300 (resp_text resp)))
      else None)"

text \<open>\<^verbatim>\<open>_get_json\<close>, on the session of \<^verbatim>\<open>_build_session\<close>.\<close>

definition get_json :: "upstream \<Rightarrow> net \<Rightarrow> string \<Rightarrow> params \<Rightarrow> (error + pyval) \<times> net" where
  "get_json up st url ps =
     (case session_get up build_session (attempts st) url ps of
        (r, clock) \<Rightarrow>
          let st' = \<lparr> attempts = clock, fetches = fetches st @ [(url, ps)] \<rparr> in
          (case r of
             Inl e \<Rightarrow> (Inl e, st')
           | Inr resp \<Rightarrow>
               (case raise_for_status_verbose resp of
                  Some e \<Rightarrow> (Inl e, st')
                | None \<Rightarrow>
                    (case json_body resp of
                       None \<Rightarrow> (Inl ValueError, st')
                     | Some j \<Rightarrow> (Inr j, st')))))"

definition FRANKFURTER_API :: string where
  "FRANKFURTER_API = ''https://api.frankfurter.dev/v1''"

subsection \<open>The rate service\<close>

text \<open>\<^verbatim>\<open>get_supported_currencies\<close>.\<close>

definition get_supported_currencies :: "upstream \<Rightarrow> net \<Rightarrow> (error + string list) \<times> net" where
  "get_supported_currencies up st =
     (case get_json up st (FRANKFURTER_API @ ''/currencies'') None of
        (Inl e, st') \<Rightarrow> (Inl e, st')
      | (Inr data, st') \<Rightarrow>
          (case data of
             PDict kvs \<Rightarrow> (Inr (sort (map (\<lambda>k. upper k) (map fst kvs))), st')
           | _ \<Rightarrow> (Inl ValueError, st')))"

text \<open>\<^verbatim>\<open>get_current_rate\<close>.\<close>

definition get_current_rate ::
  "upstream \<Rightarrow> net \<Rightarrow> string \<Rightarrow> string \<Rightarrow> (error + decimal) \<times> net" where
  "get_current_rate up st base_currency target_currency =
     (let base = upper base_currency; target = upper target_currency in
      if base = target then (Inr (Dec False 1 0), st)
      else
        (case get_json up st (FRANKFURTER_API @ ''/latest'')
                (Some [(''base'', base), (''symbols'', target)]) of
           (Inl e, st') \<Rightarrow> (Inl e, st')
         | (Inr data, st') \<Rightarrow>
             (ebind (py_get data ''rates'' (PDict []))
                (\<lambda>rates. ebind (py_get rates target PNone)
                   (\<lambda>rate. if rate = PNone then Inl KeyError else to_decimal rate)),
              st')))"

text \<open>\<^verbatim>\<open>get_currency_conversion_result\<close>.\<close>

definition get_currency_conversion_result ::
  "upstream \<Rightarrow> net \<Rightarrow> string \<Rightarrow> string \<Rightarrow> pyval \<Rightarrow> (error + decimal) \<times> net" where
  "get_currency_conversion_result up st base_currency target_currency amount =
     (case (case amount of PDecimal d \<Rightarrow> Inr d | _ \<Rightarrow> to_decimal amount) of
        Inl e \<Rightarrow> (Inl e, st)
      | Inr amt \<Rightarrow>
          (case get_current_rate up st base_currency target_currency of
             (Inl e, st') \<Rightarrow> (Inl e, st')
           | (Inr rate, st') \<Rightarrow>
               (ebind (dmul amt rate) (\<lambda>p. quantize p (Dec False 1 (- 4))), st')))"

subsection \<open>Calendar dates\<close>

text \<open>
  A \<^verbatim>\<open>date\<close> is its proleptic Gregorian ordinal (\<^verbatim>\<open>date.toordinal\<close>: day 1 is 0001-01-01);
  adding a \<^verbatim>\<open>timedelta\<close> of days adds to the ordinal. \<open>isoformat\<close> is \<^verbatim>\<open>date.isoformat\<close>,
  \<^verbatim>\<open>YYYY-MM-DD\<close>. \<^verbatim>\<open>date.today()\<close> is a parameter of the model.
\<close>

definition civil :: "int \<Rightarrow> int \<times> int \<times> int" where
  "civil ordinal =
     (let z = ordinal + 305;
          era = z div 146097;
          doe = z - era * 146097;
          yoe = (doe - doe div 1460 + doe div 36524 - doe div 146096) div 365;
          doy = doe - (365 * yoe + yoe div 4 - yoe div 100);
          mp = (5 * doy + 2) div 153;
          d = doy - (153 * mp + 2) div 5 + 1;
          m = (if mp < 10 then mp + 3 else mp - 9);
          y = yoe + era * 400 + (if m \<le> 2 then 1 else 0)
      in (y, m, d))"

definition zero_pad :: "nat \<Rightarrow> int \<Rightarrow> string" where
  "zero_pad w n = (let ds = digits_of_nat (nat n) in replicate (w - length ds) CHR ''0'' @ ds)"

definition isoformat :: "int \<Rightarrow> string" where
  "isoformat ordinal =
     (case civil ordinal of
        (y, m, d) \<Rightarrow> zero_pad 4 y @ ''-'' @ zero_pad 2 m @ ''-'' @ zero_pad 2 d)"

subsection \<open>The monthly series\<close>

text \<open>\<^verbatim>\<open>target in obj\<close> and \<^verbatim>\<open>obj[target]\<close> for a decoded JSON value \<open>obj\<close>: key
  membership and lookup on a dictionary, element membership on a list and substring
  search on a string (where the subscript then raises \<^verbatim>\<open>TypeError\<close>), \<^verbatim>\<open>TypeError\<close> on a
  value that is not a container.\<close>

fun contains :: "string \<Rightarrow> string \<Rightarrow> bool" where
  "contains t [] = (t = [])"
| "contains t (c # s) = (take (length t) (c # s) = t \<or> contains t s)"

definition py_in :: "string \<Rightarrow> pyval \<Rightarrow> error + bool" where
  "py_in key obj =
     (case obj of
        PDict kvs \<Rightarrow> Inr (key \<in> set (map fst kvs))
      | PList xs \<Rightarrow> Inr (PStr key \<in> set xs)
      | PStr s \<Rightarrow> Inr (contains key s)
      | _ \<Rightarrow> Inl TypeError)"

definition py_subscript :: "pyval \<Rightarrow> string \<Rightarrow> error + pyval" where
  "py_subscript obj key =
     (case obj of
        PDict kvs \<Rightarrow> (case map_of kvs key of Some v \<Rightarrow> Inr v | None \<Rightarrow> Inl KeyError)
      | _ \<Rightarrow> Inl TypeError)"

text \<open>The dictionary comprehension that builds \<^verbatim>\<open>rate_map\<close>, item by item in the order of
  the response; the first exception ends it.\<close>

fun build_rate_map ::
  "string \<Rightarrow> (string \<times> pyval) list \<Rightarrow> (string \<rightharpoonup> decimal) \<Rightarrow> error + (string \<rightharpoonup> decimal)" where
  "build_rate_map target [] m = Inr m"
| "build_rate_map target ((d, obj) # items) m =
     (case py_in target obj of
        Inl e \<Rightarrow> Inl e
      | Inr False \<Rightarrow> build_rate_map target items m
      | Inr True \<Rightarrow>
          (case ebind (py_subscript obj target) to_decimal of
             Inl e \<Rightarrow> Inl e
           | Inr v \<Rightarrow> build_rate_map target items (m(d \<mapsto> v))))"

text \<open>The loop over \<^verbatim>\<open>range(30)\<close>: the state is \<^verbatim>\<open>result\<close>, \<^verbatim>\<open>last_val\<close> and the network.\<close>

fun monthly_loop ::
  "upstream \<Rightarrow> (string \<rightharpoonup> decimal) \<Rightarrow> string \<Rightarrow> string \<Rightarrow> int \<Rightarrow> nat list \<Rightarrow>
   decimal option list \<Rightarrow> decimal option \<Rightarrow> net \<Rightarrow> (error + decimal option list) \<times> net" where
  "monthly_loop up rate_map base target start [] result last_val st = (Inr result, st)"
| "monthly_loop up rate_map base target start (i # rest) result last_val st =
     (let d = isoformat (start + int i) in
      case rate_map d of
        Some v \<Rightarrow> monthly_loop up rate_map base target start rest (result @ [Some v]) (Some v) st
      | None \<Rightarrow>
          if last_val = None then
            (case get_current_rate up st base target of
               (Inl e, st') \<Rightarrow> (Inl e, st')
             | (Inr r, st') \<Rightarrow>
                 monthly_loop up rate_map base target start rest (result @ [Some r]) (Some r) st')
          else monthly_loop up rate_map base target start rest (result @ [last_val]) last_val st)"

text \<open>\<^verbatim>\<open>get_monthly_rates\<close>; \<open>today\<close> is the ordinal of \<^verbatim>\<open>date.today()\<close>. The entries of the
  result are \<^verbatim>\<open>Optional[Decimal]\<close>, the type of \<^verbatim>\<open>last_val\<close>.\<close>

definition get_monthly_rates ::
  "upstream \<Rightarrow> int \<Rightarrow> net \<Rightarrow> string \<Rightarrow> string \<Rightarrow> (error + decimal option list) \<times> net" where
  "get_monthly_rates up today st base_currency target_currency =
     (let base = upper base_currency; target = upper target_currency in
      if base = target then (Inr (replicate 30 (Some (Dec False 1 0))), st)
      else
        let start = today - 29;
            url = FRANKFURTER_API @ ''/'' @ isoformat start @ ''..'' @ isoformat today
        in case get_json up st url (Some [(''base'', base), (''symbols'', target)]) of
             (Inl e, st') \<Rightarrow> (Inl e, st')
           | (Inr data, st') \<Rightarrow>
               (case py_get data ''rates'' (PDict []) of
                  Inl e \<Rightarrow> (Inl e, st')
                | Inr (PDict items) \<Rightarrow>
                    (case build_rate_map target items Map.empty of
                       Inl e \<Rightarrow> (Inl e, st')
                     | Inr rate_map \<Rightarrow>
                         monthly_loop up rate_map base target start [0..<30] [] None st')
                | Inr _ \<Rightarrow> (Inl AttributeError, st')))"

subsection \<open>The trend classifier\<close>

text \<open>\<^verbatim>\<open>analyze_rate_trend\<close> returns 0 for up, 1 for down, 2 for flat.\<close>

definition trend_up :: nat where "trend_up = 0"
definition trend_down :: nat where "trend_down = 1"
definition trend_flat :: nat where "trend_flat = 2"

definition analyze_rate_trend :: "pyval list \<Rightarrow> error + nat" where
  "analyze_rate_trend rates =
     (if rates = [] \<or> length rates < 2 then Inr trend_flat
      else
        ebind (to_decimal (hd rates)) (\<lambda>first.
        ebind (to_decimal (last rates)) (\<lambda>lst.
        ebind (dec_eq first (Dec False 0 0)) (\<lambda>first_is_zero.
          if first_is_zero then Inr trend_flat
          else
            ebind (dsub lst first) (\<lambda>diff.
            ebind (ddiv diff first) (\<lambda>quot.
            ebind (dmul quot (Dec False 100 0)) (\<lambda>change.
            ebind (dabs change) (\<lambda>magnitude.
            ebind (dec_lt magnitude (Dec False 1 (- 1))) (\<lambda>small.
              if small then Inr trend_flat
              else ebind (dec_gt change (Dec False 0 0)) (\<lambda>positive.
                     Inr (if positive then trend_up else trend_down)))))))))))"

subsection \<open>The credential helpers, signup and login (app.py)\<close>

text \<open>
  The \<^verbatim>\<open>bcrypt\<close> library is a parameter: \<open>hashpw lib p\<close> is
  \<^verbatim>\<open>bcrypt.hashpw(p.encode(), bcrypt.gensalt())\<close> and \<open>checkpw lib p h\<close> is
  \<^verbatim>\<open>bcrypt.checkpw(p.encode(), h)\<close>, each with the exceptions it may raise. A stored
  credential is \<^verbatim>\<open>Optional[bytes]\<close>; \<^verbatim>\<open>bcrypt.checkpw\<close> raises \<^verbatim>\<open>TypeError\<close> on \<^verbatim>\<open>None\<close>.
  The bare \<^verbatim>\<open>except\<close> of both helpers turns every exception of the \<^verbatim>\<open>try\<close> block into the
  fallback value; \<^verbatim>\<open>len(password)\<close> stands before the \<^verbatim>\<open>try\<close> and raises \<^verbatim>\<open>TypeError\<close>
  on a value without a length.
\<close>

record bcrypt =
  hashpw :: "string \<Rightarrow> error + string"
  checkpw :: "string \<Rightarrow> string \<Rightarrow> error + bool"

text \<open>\<^verbatim>\<open>len(x)\<close>.\<close>

definition py_len :: "pyval \<Rightarrow> error + nat" where
  "py_len x =
     (case x of
        PStr s \<Rightarrow> Inr (length s)
      | PList xs \<Rightarrow> Inr (length xs)
      | PDict kvs \<Rightarrow> Inr (length kvs)
      | _ \<Rightarrow> Inl TypeError)"

text \<open>The truth value of \<^verbatim>\<open>x\<close> in \<^verbatim>\<open>not x\<close>.\<close>

definition truthy :: "pyval \<Rightarrow> bool" where
  "truthy x =
     (case x of
        PNone \<Rightarrow> False
      | PBool b \<Rightarrow> b
      | PInt i \<Rightarrow> i \<noteq> 0
      | PFloat f \<Rightarrow> (case f of Flt s m e \<Rightarrow> m \<noteq> 0 | _ \<Rightarrow> True)
      | PStr s \<Rightarrow> s \<noteq> []
      | PDecimal d \<Rightarrow> \<not> is_zero d
      | PList xs \<Rightarrow> xs \<noteq> []
      | PDict kvs \<Rightarrow> kvs \<noteq> [])"

text \<open>\<^verbatim>\<open>hash_pw\<close>: \<open>None\<close> is the bare \<^verbatim>\<open>return\<close>. Only a string has \<^verbatim>\<open>encode\<close>; on a list or a
  dictionary of at most 64 entries the \<^verbatim>\<open>AttributeError\<close> is caught.\<close>

definition hash_pw :: "bcrypt \<Rightarrow> pyval \<Rightarrow> error + string option" where
  "hash_pw lib password =
     (case py_len password of
        Inl e \<Rightarrow> Inl e
      | Inr n \<Rightarrow>
          if 64 < n then Inr None
          else
            (case password of
               PStr p \<Rightarrow> (case hashpw lib p of Inl e \<Rightarrow> Inr None | Inr h \<Rightarrow> Inr (Some h))
             | _ \<Rightarrow> Inr None))"

text \<open>\<^verbatim>\<open>check_pw\<close>.\<close>

definition check_pw :: "bcrypt \<Rightarrow> pyval \<Rightarrow> string option \<Rightarrow> error + bool" where
  "check_pw lib password hashed =
     (case py_len password of
        Inl e \<Rightarrow> Inl e
      | Inr n \<Rightarrow>
          if 64 < n then Inr False
          else
            (case password of
               PStr p \<Rightarrow>
                 (case hashed of
                    None \<Rightarrow> Inr False
                  | Some h \<Rightarrow> (case checkpw lib p h of Inl e \<Rightarrow> Inr False | Inr b \<Rightarrow> Inr b))
             | _ \<Rightarrow> Inr False))"

text \<open>
  The collections \<^verbatim>\<open>users\<close> and \<^verbatim>\<open>sessions\<close> are lists of documents in insertion order;
  \<^verbatim>\<open>find_one\<close> returns the first match. The model covers requests whose \<^verbatim>\<open>username\<close> is a
  string. The value of \<^verbatim>\<open>uuid.uuid4()\<close> and the clock are arguments. An exception that
  leaves a view is the 500 response of the framework, kept as \<open>Inl\<close>.
\<close>

record user =
  user_id :: string
  username :: string
  password :: "string option"

record session =
  session_id :: string
  session_user :: string
  created_at :: int

record db =
  users :: "user list"
  sessions :: "session list"

definition find_user :: "db \<Rightarrow> string \<Rightarrow> user option" where
  "find_user d name = find (\<lambda>u. username u = name) (users d)"

text \<open>\<^verbatim>\<open>signup\<close>: the response is the JSON body with the status code.\<close>

definition signup ::
  "bcrypt \<Rightarrow> string \<Rightarrow> db \<Rightarrow> string \<Rightarrow> pyval \<Rightarrow> (error + pyval \<times> nat) \<times> db" where
  "signup lib uuid d name pw =
     (case find_user d name of
        Some u \<Rightarrow> (Inr (PDict [(''error'', PStr ''User already exists'')], 409), d)
      | None \<Rightarrow>
          (case hash_pw lib pw of
             Inl e \<Rightarrow> (Inl e, d)
           | Inr h \<Rightarrow>
               (Inr (PDict [(''user_id'', PStr uuid)], 201),
                d\<lparr>users := users d @ [\<lparr>user_id = uuid, username = name, password = h\<rparr>]\<rparr>)))"

text \<open>\<^verbatim>\<open>login\<close>, for a request body that is a non-empty JSON object.\<close>

definition login ::
  "bcrypt \<Rightarrow> string \<Rightarrow> int \<Rightarrow> db \<Rightarrow> string \<Rightarrow> pyval \<Rightarrow> (error + pyval \<times> nat) \<times> db" where
  "login lib uuid now d name pw =
     (if name = [] \<or> \<not> truthy pw
      then (Inr (PDict [(''error'', PStr ''Missing username or password'')], 400), d)
      else
        (case find_user d name of
           None \<Rightarrow> (Inr (PDict [(''error'', PStr ''Invalid login'')], 401), d)
         | Some u \<Rightarrow>
             (case check_pw lib pw (password u) of
                Inl e \<Rightarrow> (Inl e, d)
              | Inr False \<Rightarrow> (Inr (PDict [(''error'', PStr ''Invalid login'')], 401), d)
              | Inr True \<Rightarrow>
                  (Inr (PDict [(''session_id'', PStr uuid), (''user_id'', PStr (username u))], 200),
                   d\<lparr>sessions := sessions d @
                        [\<lparr>session_id = uuid, session_user = user_id u, created_at = now\<rparr>]\<rparr>))))"

subsection \<open>Vocabulary of the properties\<close>


text \<open>An upstream answer with status 200 and a JSON body, and the upstream that gives the
  same answer to every request.\<close>

definition ok_response :: "string \<Rightarrow> pyval \<Rightarrow> response" where
  "ok_response url j =
     \<lparr> status_code = 200, resp_url = url, resp_text = [], json_body = Some j,
       retry_after = False \<rparr>"

definition always :: "pyval \<Rightarrow> upstream" where
  "always j = (\<lambda>n url ps. Responded (ok_response url j))"

text \<open>An upstream that answers 503 to the first \<open>k\<close> attempts and 200 with the payload from
  then on.\<close>

definition unavailable :: "string \<Rightarrow> response" where
  "unavailable url =
     \<lparr> status_code = 503, resp_url = url, resp_text = ''Service Unavailable'',
       json_body = None, retry_after = False \<rparr>"

definition flaky :: "nat \<Rightarrow> pyval \<Rightarrow> upstream" where
  "flaky k j = (\<lambda>n url ps. if n < k then Responded (unavailable url) else Responded (ok_response url j))"

definition net0 :: net where
  "net0 = \<lparr> attempts = 0, fetches = [] \<rparr>"

text \<open>Carry-forward as a function of the data alone: each date takes the upstream value when
  there is one, and the last known value otherwise.\<close>

fun forward_fill :: "(string \<rightharpoonup> decimal) \<Rightarrow> string list \<Rightarrow> decimal \<Rightarrow> decimal list" where
  "forward_fill rate_map [] known = []"
| "forward_fill rate_map (d # ds) known =
     (case rate_map d of
        Some v \<Rightarrow> v # forward_fill rate_map ds v
      | None \<Rightarrow> known # forward_fill rate_map ds known)"

text \<open>The 30 dates of the window that ends today, oldest first, and the two requests of the
  series builder.\<close>

definition window :: "int \<Rightarrow> string list" where
  "window today = map (\<lambda>i. isoformat (today - 29 + int i)) [0..<30]"

definition series_url :: "int \<Rightarrow> string" where
  "series_url today = FRANKFURTER_API @ ''/'' @ isoformat (today - 29) @ ''..'' @ isoformat today"

definition pair_params :: "string \<Rightarrow> string \<Rightarrow> params" where
  "pair_params base target = Some [(''base'', base), (''symbols'', target)]"

definition latest_url :: string where
  "latest_url = FRANKFURTER_API @ ''/latest''"

text \<open>An upstream that answers the latest-rate request with \<open>latest\<close> and every other
  request with a time series that holds the given entries.\<close>

definition series_with :: "(string \<times> pyval) list \<Rightarrow> pyval \<Rightarrow> upstream" where
  "series_with items latest =
     (\<lambda>n url ps. if url = latest_url then Responded (ok_response url latest)
                 else Responded (ok_response url (PDict [(''rates'', PDict items)])))"


section \<open>Properties\<close>

subsection \<open>The rate of a currency against itself\<close>

text \<open>
  Claim C6. For every currency code, in any casing (so for every base and target that are
  equal after upper-casing), \<^verbatim>\<open>get_current_rate\<close> returns exactly the decimal 1 and leaves
  the network untouched: no HTTP attempt is made and no fetch is logged, whatever the
  upstream would answer.
\<close>

theorem get_current_rate_same_currency:
  assumes "upper base_currency = upper target_currency"
  shows "get_current_rate up st base_currency target_currency = (Inr (Dec False 1 0), st)"
  using assms by (simp add: get_current_rate_def Let_def)

theorem get_current_rate_same_currency_witness:
  "upper ''usd'' = upper ''USD'' \<and>
   get_current_rate (\<lambda>n url ps. Failed) \<lparr>attempts = 0, fetches = []\<rparr> ''usd'' ''USD''
     = (Inr (Dec False 1 0), \<lparr>attempts = 0, fetches = []\<rparr>) \<and>
   dval (Dec False 1 0) = 1"
proof -
  have h: "upper ''usd'' = upper ''USD''"
    by code_simp
  show ?thesis
    using h get_current_rate_same_currency [OF h, of "\<lambda>n url ps. Failed" "\<lparr>attempts = 0, fetches = []\<rparr>"]
    by (simp add: dval_def)
qed

subsection \<open>The decimal normaliser: which inputs raise\<close>

lemma is_digit_digit_char: "d < 10 \<Longrightarrow> is_digit (digit_char d)"
  by (simp add: is_digit_def digit_char_def)

lemma digit_val_digit_char: "d < 10 \<Longrightarrow> digit_val (digit_char d) = d"
  by (simp add: digit_val_def digit_char_def)

lemma digits_of_nat_all: "list_all is_digit (digits_of_nat n)"
proof (induction n rule: digits_of_nat.induct)
  case (1 n)
  show ?case
  proof (cases "n < 10")
    case True
    then show ?thesis by (subst digits_of_nat.simps) (simp add: is_digit_digit_char)
  next
    case False
    with 1 show ?thesis by (subst digits_of_nat.simps) (simp add: is_digit_digit_char)
  qed
qed

lemma digits_of_nat_nonempty: "digits_of_nat n \<noteq> []"
  by (subst digits_of_nat.simps) simp

lemma nat_of_digits_snoc: "nat_of_digits (xs @ [c]) = 10 * nat_of_digits xs + digit_val c"
  by (simp add: nat_of_digits_def)

lemma nat_of_digits_of_nat: "nat_of_digits (digits_of_nat n) = n"
proof (induction n rule: digits_of_nat.induct)
  case (1 n)
  show ?case
  proof (cases "n < 10")
    case True
    then show ?thesis
      by (subst digits_of_nat.simps) (simp add: nat_of_digits_def digit_val_digit_char)
  next
    case False
    with 1 show ?thesis
      by (subst digits_of_nat.simps) (simp add: nat_of_digits_snoc digit_val_digit_char)
  qed
qed

lemma digit_not_space: "is_digit c \<Longrightarrow> \<not> is_space c"
  by (auto simp: is_digit_def is_space_def Let_def)

lemma dropWhile_hd_id: "xs \<noteq> [] \<Longrightarrow> \<not> P (hd xs) \<Longrightarrow> dropWhile P xs = xs"
  by (cases xs) auto

lemma strip_id:
  assumes "s \<noteq> []" "\<not> is_space (hd s)" "\<not> is_space (last s)"
  shows "strip s = s"
proof -
  have a: "dropWhile is_space s = s" using assms by (simp add: dropWhile_hd_id)
  have b: "dropWhile is_space (rev s) = rev s"
    using assms by (intro dropWhile_hd_id) (simp_all add: hd_rev)
  show ?thesis by (simp add: strip_def a b)
qed

lemma parse_number_digits:
  assumes "ds \<noteq> []" "list_all is_digit ds"
  shows "parse_number sg ds = Some (Dec sg (nat_of_digits ds) 0)"
proof -
  have tw: "takeWhile is_digit ds = ds" and dw: "dropWhile is_digit ds = []"
    using assms by (simp_all add: list_all_iff)
  show ?thesis using assms(1) by (simp add: parse_number_def Let_def tw dw)
qed

lemma digit_not_special: "is_digit c \<Longrightarrow> c \<noteq> CHR ''_'' \<and> c \<noteq> CHR ''-'' \<and> c \<noteq> CHR ''+''"
  by (auto simp: is_digit_def)

text \<open>The text of an integer reads back as that integer, with exponent 0.\<close>

lemma decimal_of_str_str_int: "decimal_of_str (str_int i) = Inr (Dec (i < 0) (nat \<bar>i\<bar>) 0)"
proof -
  define ds where "ds = digits_of_nat (nat \<bar>i\<bar>)"
  have ne: "ds \<noteq> []" and all: "list_all is_digit ds"
    by (simp_all add: ds_def digits_of_nat_nonempty digits_of_nat_all)
  have val: "nat_of_digits ds = nat \<bar>i\<bar>" by (simp add: ds_def nat_of_digits_of_nat)
  have hd: "is_digit (hd ds)" and lst: "is_digit (last ds)"
    using ne all by (auto simp: list_all_iff)
  have filt: "filter (\<lambda>c. c \<noteq> CHR ''_'') ds = ds"
    using all digit_not_special by (auto simp: list_all_iff filter_id_conv)
  show ?thesis
  proof (cases "i < 0")
    case True
    then have s: "str_int i = CHR ''-'' # ds" by (simp add: str_int_def ds_def abs_if)
    have "strip (CHR ''-'' # ds) = CHR ''-'' # ds"
      using ne lst digit_not_space by (intro strip_id) (auto simp: is_space_def)
    then show ?thesis
      using True filt ne all val by (simp add: s decimal_of_str_def parse_number_digits)
  next
    case False
    then have s: "str_int i = ds" by (simp add: str_int_def ds_def abs_if)
    have st: "strip ds = ds"
      using ne hd lst digit_not_space by (intro strip_id) auto
    obtain c r where cr: "ds = c # r" using ne by (cases ds) auto
    then have "c \<noteq> CHR ''-''" "c \<noteq> CHR ''+''" using hd digit_not_special by auto
    then show ?thesis
      using False filt ne all val st cr by (simp add: s decimal_of_str_def parse_number_digits)
  qed
qed





subsection \<open>The retry budget of the fetcher\<close>

lemma session_get_ok:
  assumes "up c url ps = Responded resp" "\<not> is_retry r resp"
  shows "session_get up r c url ps = (Inr resp, c + 1)"
  using assms by (subst session_get.simps) simp

lemma is_retry_forcelist:
  "status_code resp = 503 \<Longrightarrow> is_retry (build_session\<lparr>total := n\<rparr>) resp"
  by (simp add: is_retry_def build_session_def)

lemma not_is_retry_ok: "\<not> is_retry (build_session\<lparr>total := n\<rparr>) (ok_response url j)"
  by (simp add: is_retry_def build_session_def ok_response_def)

text \<open>\<open>k\<close> answers with status 503 use up \<open>k\<close> of the retries that are left.\<close>

lemma session_get_retries:
  assumes "\<forall>j<k. \<exists>resp. up (c + j) url ps = Responded resp \<and> status_code resp = 503"
    and "int k \<le> n"
  shows "session_get up (build_session\<lparr>total := n\<rparr>) c url ps
       = session_get up (build_session\<lparr>total := n - int k\<rparr>) (c + k) url ps"
  using assms
proof (induction k arbitrary: c n)
  case 0
  then show ?case by simp
next
  case (Suc k)
  from Suc.prems(1) obtain resp where r: "up c url ps = Responded resp" "status_code resp = 503"
    by force
  have rest: "\<forall>j<k. \<exists>resp. up (Suc c + j) url ps = Responded resp \<and> status_code resp = 503"
    using Suc.prems(1) by (metis Suc_less_eq add_Suc_shift)
  have "session_get up (build_session\<lparr>total := n\<rparr>) c url ps
      = session_get up (build_session\<lparr>total := n - 1\<rparr>) (Suc c) url ps"
    using r Suc.prems(2) by (subst session_get.simps) (simp add: is_retry_forcelist)
  also have "\<dots> = session_get up (build_session\<lparr>total := n - 1 - int k\<rparr>) (Suc c + k) url ps"
    using Suc.IH [of "Suc c" "n - 1"] rest Suc.prems(2) by simp
  finally show ?case by (simp add: algebra_simps)
qed

lemma session_get_exhausted:
  assumes "\<forall>j<k. \<exists>resp. up (c + j) url ps = Responded resp \<and> status_code resp = 503"
    and "0 \<le> n" "n < int k"
  shows "session_get up (build_session\<lparr>total := n\<rparr>) c url ps = (Inl RetryError, c + nat n + 1)"
proof -
  have pre: "\<forall>j<nat n. \<exists>resp. up (c + j) url ps = Responded resp \<and> status_code resp = 503"
    using assms by auto
  have step: "session_get up (build_session\<lparr>total := n\<rparr>) c url ps
      = session_get up (build_session\<lparr>total := 0\<rparr>) (c + nat n) url ps"
    using session_get_retries [of "nat n" up c url ps n] pre assms(2) by simp
  have "nat n < k" using assms by linarith
  then obtain resp where r: "up (c + nat n) url ps = Responded resp" "status_code resp = 503"
    using assms(1) by blast
  have "session_get up (build_session\<lparr>total := 0\<rparr>) (c + nat n) url ps = (Inl RetryError, c + nat n + 1)"
    using r by (subst session_get.simps) (simp add: is_retry_forcelist)
  with step show ?thesis by simp
qed

lemma build_session_total: "build_session\<lparr>total := 3\<rparr> = build_session"
  by (simp add: build_session_def)

text \<open>
  Claim C4 says that the budget is 3 attempts in total, so that a fetch fails against an
  upstream that answers 503 three times and would succeed on the 4th attempt. On the code
  the session is built with \<^verbatim>\<open>Retry(total=3)\<close>, which allows 3 retries after the first
  attempt: the 4th attempt is made and its payload is returned.
\<close>

theorem fetch_three_failures_counterexample:
  "get_json (flaky 3 (PDict [(''amount'', PInt 1)])) net0 ''u'' None
     = (Inr (PDict [(''amount'', PInt 1)]), \<lparr> attempts = 4, fetches = [(''u'', None)] \<rparr>)"
  by (simp add: get_json_def session_get.simps flaky_def net0_def build_session_def is_retry_def
      unavailable_def ok_response_def raise_for_status_verbose_def)

text \<open>
  Claim C4, amended. The retry budget is 3 retries, 4 attempts in total. Against an
  upstream that answers 503 to the next \<open>k\<close> attempts and then succeeds, a fetch returns the
  successful payload after \<open>k + 1\<close> attempts when \<open>k \<le> 3\<close> (in particular when the upstream
  succeeds on attempt 2), and fails with \<^verbatim>\<open>RetryError\<close> after exactly 4 attempts when
  \<open>k \<ge> 4\<close>.
\<close>

theorem fetch_retry_budget:
  assumes "\<forall>j<k. \<exists>resp. up (attempts st + j) url ps = Responded resp \<and> status_code resp = 503"
    and "up (attempts st + k) url ps = Responded (ok_response url payload)"
  shows "(k \<le> 3 \<longrightarrow> get_json up st url ps
            = (Inr payload, \<lparr> attempts = attempts st + k + 1, fetches = fetches st @ [(url, ps)] \<rparr>)) \<and>
         (4 \<le> k \<longrightarrow> get_json up st url ps
            = (Inl RetryError, \<lparr> attempts = attempts st + 4, fetches = fetches st @ [(url, ps)] \<rparr>))"
proof (intro conjI impI)
  assume k: "k \<le> 3"
  have "session_get up build_session (attempts st) url ps
      = session_get up (build_session\<lparr>total := 3 - int k\<rparr>) (attempts st + k) url ps"
    using session_get_retries [of k up "attempts st" url ps 3] assms(1) k
    by (simp add: build_session_total)
  also have "\<dots> = (Inr (ok_response url payload), attempts st + k + 1)"
    using assms(2) by (simp add: session_get_ok not_is_retry_ok)
  finally show "get_json up st url ps
      = (Inr payload, \<lparr> attempts = attempts st + k + 1, fetches = fetches st @ [(url, ps)] \<rparr>)"
    by (simp add: get_json_def raise_for_status_verbose_def ok_response_def)
next
  assume k: "4 \<le> k"
  have "session_get up build_session (attempts st) url ps = (Inl RetryError, attempts st + nat 3 + 1)"
    using session_get_exhausted [of k up "attempts st" url ps 3] assms(1) k
    by (simp add: build_session_total)
  then show "get_json up st url ps
      = (Inl RetryError, \<lparr> attempts = attempts st + 4, fetches = fetches st @ [(url, ps)] \<rparr>)"
    by (simp add: get_json_def)
qed

theorem fetch_retry_budget_witness:
  "get_json (flaky 1 (PInt 7)) net0 ''u'' None
     = (Inr (PInt 7), \<lparr> attempts = 2, fetches = [(''u'', None)] \<rparr>) \<and>
   get_json (flaky 4 (PInt 7)) net0 ''u'' None
     = (Inl RetryError, \<lparr> attempts = 4, fetches = [(''u'', None)] \<rparr>)"
proof -
  have a: "\<forall>j<1. \<exists>resp. flaky 1 (PInt 7) (attempts net0 + j) ''u'' None = Responded resp
            \<and> status_code resp = 503"
    by (simp add: flaky_def unavailable_def net0_def)
  have b: "flaky 1 (PInt 7) (attempts net0 + 1) ''u'' None = Responded (ok_response ''u'' (PInt 7))"
    by (simp add: flaky_def net0_def)
  have c: "\<forall>j<4. \<exists>resp. flaky 4 (PInt 7) (attempts net0 + j) ''u'' None = Responded resp
            \<and> status_code resp = 503"
    by (simp add: flaky_def unavailable_def net0_def)
  have d: "flaky 4 (PInt 7) (attempts net0 + 4) ''u'' None = Responded (ok_response ''u'' (PInt 7))"
    by (simp add: flaky_def net0_def)
  show ?thesis
    using fetch_retry_budget [where k = 1 and up = "flaky 1 (PInt 7)" and st = net0
        and url = "''u''" and ps = None and payload = "PInt 7", OF a b]
      fetch_retry_budget [where k = 4 and up = "flaky 4 (PInt 7)" and st = net0
        and url = "''u''" and ps = None and payload = "PInt 7", OF c d]
    by (simp add: net0_def)
qed

subsection \<open>The list of supported currencies\<close>

text \<open>
  Claim C5 says that the result has no duplicate code for any casing of the upstream keys.
  The keys of a JSON object are distinct as written, not after upper-casing: on the keys
  \<^verbatim>\<open>usd\<close> and \<^verbatim>\<open>USD\<close> the function returns \<^verbatim>\<open>USD\<close> twice, since the list of upper-cased keys
  is sorted without removing repetitions.
\<close>

theorem supported_currencies_duplicates_counterexample:
  "fst (get_supported_currencies
          (always (PDict [(''usd'', PStr ''Dollar''), (''USD'', PStr ''US Dollar'')])) net0)
     = Inr [''USD'', ''USD''] \<and>
   distinct (map fst [(''usd'', PStr ''Dollar''), (''USD'', PStr ''US Dollar'')]) \<and>
   \<not> distinct [''USD'', ''USD'']"
proof -
  have u: "upper ''usd'' = ''USD''" "upper ''USD'' = ''USD''"
    by code_simp+
  show ?thesis
    by (simp add: get_supported_currencies_def get_json_def session_get.simps always_def net0_def
        build_session_def is_retry_def ok_response_def raise_for_status_verbose_def u)
qed

text \<open>
  Claim C5, amended. For every upstream \<^verbatim>\<open>/currencies\<close> answer that is a JSON object, in
  any key order and casing, \<^verbatim>\<open>get_supported_currencies\<close> returns the upper-cased keys in
  ascending order, each as many times as keys upper-case to it: the result is free of
  duplicates exactly when no two keys agree after upper-casing.
\<close>

theorem supported_currencies_sorted:
  assumes "get_json up st (FRANKFURTER_API @ ''/currencies'') None = (Inr (PDict kvs), st')"
  shows "\<exists>codes. get_supported_currencies up st = (Inr codes, st') \<and>
           sorted codes \<and>
           mset codes = mset (map upper (map fst kvs)) \<and>
           distinct codes = distinct (map upper (map fst kvs))"
  using assms by (simp add: get_supported_currencies_def)

theorem supported_currencies_sorted_witness:
  "\<exists>codes. get_supported_currencies
              (always (PDict [(''usd'', PStr ''Dollar''), (''EUR'', PStr ''Euro'')])) net0
            = (Inr codes, \<lparr> attempts = 1, fetches = [(FRANKFURTER_API @ ''/currencies'', None)] \<rparr>) \<and>
           sorted codes \<and>
           mset codes = mset (map upper (map fst [(''usd'', PStr ''Dollar''), (''EUR'', PStr ''Euro'')])) \<and>
           distinct codes
             = distinct (map upper (map fst [(''usd'', PStr ''Dollar''), (''EUR'', PStr ''Euro'')]))"
proof -
  have h: "get_json (always (PDict [(''usd'', PStr ''Dollar''), (''EUR'', PStr ''Euro'')])) net0
             (FRANKFURTER_API @ ''/currencies'') None
           = (Inr (PDict [(''usd'', PStr ''Dollar''), (''EUR'', PStr ''Euro'')]),
              \<lparr> attempts = 1, fetches = [(FRANKFURTER_API @ ''/currencies'', None)] \<rparr>)"
    by (simp add: get_json_def session_get.simps always_def net0_def
        build_session_def is_retry_def ok_response_def raise_for_status_verbose_def)
  show ?thesis using supported_currencies_sorted [OF h] .
qed

subsection \<open>Passwords of more than 64 characters\<close>

lemma find_snoc: "find P xs = None \<Longrightarrow> find P (xs @ [u]) = (if P u then Some u else None)"
  by (induction xs) (auto split: if_splits)

lemma find_user_after_insert:
  assumes "find_user d name = None"
  shows "find_user (d\<lparr>users := users d @ [\<lparr>user_id = uid, username = name, password = h\<rparr>]\<rparr>) name
       = Some \<lparr>user_id = uid, username = name, password = h\<rparr>"
  using assms by (simp add: find_user_def find_snoc)

lemma check_pw_no_credential: "check_pw lib q None \<noteq> Inr True"
  by (cases q) (simp_all add: check_pw_def py_len_def)

text \<open>
  Claim C10. For a password string of more than 64 characters, \<^verbatim>\<open>hash_pw\<close> returns \<^verbatim>\<open>None\<close>
  and raises nothing, and \<^verbatim>\<open>check_pw\<close> returns \<^verbatim>\<open>False\<close> against every stored value. So a
  signup of a new user name with such a password answers 201 and stores the credential
  \<^verbatim>\<open>None\<close>; after it, a login with that user name and any password \<open>q\<close> never answers 200
  (it answers 400, 401, or fails on a password without a length) and opens no session.
\<close>

theorem long_password_never_logs_in:
  assumes "64 < length p" and "find_user d name = None"
  shows "hash_pw lib (PStr p) = Inr None \<and>
         check_pw lib (PStr p) h = Inr False \<and>
         signup lib uid d name (PStr p)
           = (Inr (PDict [(''user_id'', PStr uid)], 201),
              d\<lparr>users := users d @ [\<lparr>user_id = uid, username = name, password = None\<rparr>]\<rparr>) \<and>
         (case login lib uid' now (snd (signup lib uid d name (PStr p))) name q of
            (Inr (body, status), d') \<Rightarrow>
               (status = 400 \<or> status = 401) \<and> d' = snd (signup lib uid d name (PStr p))
          | (Inl e, d') \<Rightarrow> d' = snd (signup lib uid d name (PStr p)))"
proof -
  have a: "hash_pw lib (PStr p) = Inr None"
    using assms(1) by (simp add: hash_pw_def py_len_def)
  have b: "check_pw lib (PStr p) h = Inr False"
    using assms(1) by (simp add: check_pw_def py_len_def)
  let ?d1 = "d\<lparr>users := users d @ [\<lparr>user_id = uid, username = name, password = None\<rparr>]\<rparr>"
  have c: "signup lib uid d name (PStr p) = (Inr (PDict [(''user_id'', PStr uid)], 201), ?d1)"
    using assms(2) a by (simp add: signup_def)
  have f: "find_user ?d1 name = Some \<lparr>user_id = uid, username = name, password = None\<rparr>"
    using assms(2) by (rule find_user_after_insert)
  have e: "(case login lib uid' now ?d1 name q of
            (Inr (body, status), d') \<Rightarrow> (status = 400 \<or> status = 401) \<and> d' = ?d1
          | (Inl e, d') \<Rightarrow> d' = ?d1)"
    using check_pw_no_credential [of lib q]
    by (cases "check_pw lib q None") (auto simp: login_def f split: bool.splits)
  show ?thesis unfolding c snd_conv using a b e by simp
qed

theorem long_password_never_logs_in_witness:
  "64 < length (replicate 65 CHR ''a'') \<and>
   find_user \<lparr>users = [], sessions = []\<rparr> ''ann'' = None \<and>
   hash_pw \<lparr>hashpw = \<lambda>p. Inr (rev p), checkpw = \<lambda>p h. Inr (h = rev p)\<rparr>
     (PStr (replicate 65 CHR ''a'')) = Inr None \<and>
   signup \<lparr>hashpw = \<lambda>p. Inr (rev p), checkpw = \<lambda>p h. Inr (h = rev p)\<rparr> ''id1''
     \<lparr>users = [], sessions = []\<rparr> ''ann'' (PStr (replicate 65 CHR ''a''))
     = (Inr (PDict [(''user_id'', PStr ''id1'')], 201),
        \<lparr>users = [\<lparr>user_id = ''id1'', username = ''ann'', password = None\<rparr>], sessions = []\<rparr>) \<and>
   login \<lparr>hashpw = \<lambda>p. Inr (rev p), checkpw = \<lambda>p h. Inr (h = rev p)\<rparr> ''id2'' 0
     \<lparr>users = [\<lparr>user_id = ''id1'', username = ''ann'', password = None\<rparr>], sessions = []\<rparr>
     ''ann'' (PStr (replicate 65 CHR ''a''))
     = (Inr (PDict [(''error'', PStr ''Invalid login'')], 401),
        \<lparr>users = [\<lparr>user_id = ''id1'', username = ''ann'', password = None\<rparr>], sessions = []\<rparr>)"
proof -
  have h1: "64 < length (replicate 65 CHR ''a'')" by simp
  have h2: "find_user \<lparr>users = [], sessions = []\<rparr> ''ann'' = None" by (simp add: find_user_def)
  show ?thesis
    using long_password_never_logs_in [OF h1 h2,
        of "\<lparr>hashpw = \<lambda>p. Inr (rev p), checkpw = \<lambda>p h. Inr (h = rev p)\<rparr>" None "''id1''" "''id2''" 0
           "PStr (replicate 65 CHR ''a'')"]
    by (simp add: find_user_def login_def check_pw_def py_len_def truthy_def)
qed

subsection \<open>Floats are normalised through their shortest text\<close>

lemma digit_chars:
  "digit_char 0 = CHR ''0''" "digit_char 1 = CHR ''1''" "digit_char 2 = CHR ''2''"
  "digit_char 3 = CHR ''3''" "digit_char 4 = CHR ''4''" "digit_char 5 = CHR ''5''"
  "digit_char 6 = CHR ''6''" "digit_char 7 = CHR ''7''" "digit_char 8 = CHR ''8''"
  "digit_char 9 = CHR ''9''" "digit_char (Suc 0) = CHR ''1''"
  by code_simp+





subsection \<open>The monthly series: shape of the result and the live-rate fallback\<close>

lemma upper_char_idem: "upper_char (upper_char c) = upper_char c"
  by (auto simp: upper_char_def Let_def)

lemma upper_idem: "upper (upper s) = upper s"
  by (simp add: upper_def upper_char_idem)

lemma monthly_loop_known:
  "monthly_loop up rate_map base target start idx result (Some v) st
     = (Inr (result @ map Some (forward_fill rate_map (map (\<lambda>i. isoformat (start + int i)) idx) v)), st)"
proof (induction idx arbitrary: result v)
  case Nil
  then show ?case by simp
next
  case (Cons i idx)
  show ?case
    by (cases "rate_map (isoformat (start + int i))") (simp_all add: Cons.IH)
qed


lemma window_Cons:
  "map (\<lambda>i. isoformat (start + int i)) [0..<30]
     = isoformat start # map (\<lambda>i. isoformat (start + int i)) [1..<30]"
  by (simp add: upt_conv_Cons)

lemma get_monthly_rates_unfold:
  assumes neq: "upper b \<noteq> upper t"
    and fetch: "get_json up st (series_url today) (pair_params (upper b) (upper t)) = (Inr data, st1)"
    and rates: "py_get data ''rates'' (PDict []) = Inr (PDict items)"
    and rm: "build_rate_map (upper t) items Map.empty = Inr rate_map"
  shows "get_monthly_rates up today st b t =
     (case rate_map (isoformat (today - 29)) of
        Some v \<Rightarrow> (Inr (map Some (forward_fill rate_map (window today) v)), st1)
      | None \<Rightarrow>
          (case get_current_rate up st1 (upper b) (upper t) of
             (Inl e, st2) \<Rightarrow> (Inl e, st2)
           | (Inr r, st2) \<Rightarrow> (Inr (map Some (forward_fill rate_map (window today) r)), st2)))"
proof -
  have w: "window today = isoformat (today - 29) # map (\<lambda>i. isoformat (today - 29 + int i)) [1..<30]"
    unfolding window_def by (rule window_Cons)
  have idx: "[0..<30] = 0 # [1..<30]" by (simp add: upt_conv_Cons)
  have g: "get_monthly_rates up today st b t
      = monthly_loop up rate_map (upper b) (upper t) (today - 29) (0 # [1..<30]) [] None st1"
    using neq fetch rates rm
    by (simp add: get_monthly_rates_def Let_def series_url_def pair_params_def idx del: upt_Suc)
  show ?thesis
  proof (cases "rate_map (isoformat (today - 29))")
    case (Some v)
    then show ?thesis by (simp add: g w monthly_loop_known)
  next
    case None
    obtain r st2 where c: "get_current_rate up st1 (upper b) (upper t) = (r, st2)"
      by (cases "get_current_rate up st1 (upper b) (upper t)")
    show ?thesis
      using None c by (cases r) (simp_all add: g w monthly_loop_known)
  qed
qed

lemma get_current_rate_fetches:
  assumes "upper b \<noteq> upper t"
  shows "fetches (snd (get_current_rate up st b t))
       = fetches st @ [(latest_url, pair_params (upper b) (upper t))]"
proof -
  obtain r st' where g: "get_json up st latest_url (pair_params (upper b) (upper t)) = (r, st')"
    by (cases "get_json up st latest_url (pair_params (upper b) (upper t))")
  have f: "fetches st' = fetches st @ [(latest_url, pair_params (upper b) (upper t))]"
    using g by (auto simp: get_json_def Let_def split: prod.splits sum.splits option.splits)
  show ?thesis
    using assms g f
    by (cases r) (simp_all add: get_current_rate_def Let_def latest_url_def pair_params_def)
qed


text \<open>Evaluation of the dates of the window that ends on 2024-01-01 (ordinal 738886).\<close>

lemma civil_window:
  "civil 738857 = (2023, 12, 3)"
  "civil 738858 = (2023, 12, 4)"
  "civil 738859 = (2023, 12, 5)"
  "civil 738860 = (2023, 12, 6)"
  "civil 738861 = (2023, 12, 7)"
  "civil 738862 = (2023, 12, 8)"
  "civil 738863 = (2023, 12, 9)"
  "civil 738864 = (2023, 12, 10)"
  "civil 738865 = (2023, 12, 11)"
  "civil 738866 = (2023, 12, 12)"
  "civil 738867 = (2023, 12, 13)"
  "civil 738868 = (2023, 12, 14)"
  "civil 738869 = (2023, 12, 15)"
  "civil 738870 = (2023, 12, 16)"
  "civil 738871 = (2023, 12, 17)"
  "civil 738872 = (2023, 12, 18)"
  "civil 738873 = (2023, 12, 19)"
  "civil 738874 = (2023, 12, 20)"
  "civil 738875 = (2023, 12, 21)"
  "civil 738876 = (2023, 12, 22)"
  "civil 738877 = (2023, 12, 23)"
  "civil 738878 = (2023, 12, 24)"
  "civil 738879 = (2023, 12, 25)"
  "civil 738880 = (2023, 12, 26)"
  "civil 738881 = (2023, 12, 27)"
  "civil 738882 = (2023, 12, 28)"
  "civil 738883 = (2023, 12, 29)"
  "civil 738884 = (2023, 12, 30)"
  "civil 738885 = (2023, 12, 31)"
  "civil 738886 = (2024, 1, 1)"
  by code_simp+
lemma zero_pads:
  "zero_pad 4 2023 = ''2023''"
  "zero_pad 4 2024 = ''2024''"
  "zero_pad 2 12 = ''12''"
  "zero_pad 2 1 = ''01''"
  "zero_pad 2 2 = ''02''"
  "zero_pad 2 3 = ''03''"
  "zero_pad 2 4 = ''04''"
  "zero_pad 2 5 = ''05''"
  "zero_pad 2 6 = ''06''"
  "zero_pad 2 7 = ''07''"
  "zero_pad 2 8 = ''08''"
  "zero_pad 2 9 = ''09''"
  "zero_pad 2 10 = ''10''"
  "zero_pad 2 11 = ''11''"
  "zero_pad 2 13 = ''13''"
  "zero_pad 2 14 = ''14''"
  "zero_pad 2 15 = ''15''"
  "zero_pad 2 16 = ''16''"
  "zero_pad 2 17 = ''17''"
  "zero_pad 2 18 = ''18''"
  "zero_pad 2 19 = ''19''"
  "zero_pad 2 20 = ''20''"
  "zero_pad 2 21 = ''21''"
  "zero_pad 2 22 = ''22''"
  "zero_pad 2 23 = ''23''"
  "zero_pad 2 24 = ''24''"
  "zero_pad 2 25 = ''25''"
  "zero_pad 2 26 = ''26''"
  "zero_pad 2 27 = ''27''"
  "zero_pad 2 28 = ''28''"
  "zero_pad 2 29 = ''29''"
  "zero_pad 2 30 = ''30''"
  "zero_pad 2 31 = ''31''"
  by (simp_all add: zero_pad_def digits_of_nat.simps digit_chars)
lemma win: "window 738886 = [''2023-12-03'', ''2023-12-04'', ''2023-12-05'', ''2023-12-06'', ''2023-12-07'', ''2023-12-08'', ''2023-12-09'', ''2023-12-10'', ''2023-12-11'', ''2023-12-12'', ''2023-12-13'', ''2023-12-14'', ''2023-12-15'', ''2023-12-16'', ''2023-12-17'', ''2023-12-18'', ''2023-12-19'', ''2023-12-20'', ''2023-12-21'', ''2023-12-22'', ''2023-12-23'', ''2023-12-24'', ''2023-12-25'', ''2023-12-26'', ''2023-12-27'', ''2023-12-28'', ''2023-12-29'', ''2023-12-30'', ''2023-12-31'', ''2024-01-01'']"
  by (simp add: window_def upt_conv_Cons isoformat_def civil_window zero_pads)

lemma upper_codes: "upper ''USD'' = ''USD''" "upper ''EUR'' = ''EUR''"
  by code_simp+

lemma get_json_always:
  assumes "up (attempts st) url ps = Responded (ok_response url j)"
  shows "get_json up st url ps
       = (Inr j, \<lparr>attempts = attempts st + 1, fetches = fetches st @ [(url, ps)]\<rparr>)"
  using assms
  by (simp add: get_json_def session_get.simps build_session_def is_retry_def ok_response_def
      raise_for_status_verbose_def)

lemma iso_ends: "isoformat 738857 = ''2023-12-03''" "isoformat 738886 = ''2024-01-01''"
  by (simp_all add: isoformat_def civil_window zero_pads)

lemma series_url_not_latest: "series_url 738886 \<noteq> latest_url"
  by (simp add: series_url_def latest_url_def FRANKFURTER_API_def iso_ends)

text \<open>The run of \<^verbatim>\<open>get_monthly_rates("USD", "EUR")\<close> on 2024-01-01 against \<open>series_with\<close>, with
  the live rate 2.\<close>

lemma series_with_run:
  assumes rm: "build_rate_map ''EUR'' items Map.empty = Inr rate_map"
  shows "get_monthly_rates (series_with items (PDict [(''rates'', PDict [(''EUR'', PInt 2)])]))
           738886 net0 ''USD'' ''EUR''
       = (case rate_map ''2023-12-03'' of
            Some v \<Rightarrow>
              (Inr (map Some (forward_fill rate_map (window 738886) v)),
               \<lparr>attempts = 1, fetches = [(series_url 738886, pair_params ''USD'' ''EUR'')]\<rparr>)
          | None \<Rightarrow>
              (Inr (map Some (forward_fill rate_map (window 738886) (Dec False 2 0))),
               \<lparr>attempts = 2, fetches = [(series_url 738886, pair_params ''USD'' ''EUR''),
                                         (latest_url, pair_params ''USD'' ''EUR'')]\<rparr>))"
proof -
  let ?up = "series_with items (PDict [(''rates'', PDict [(''EUR'', PInt 2)])])"
  let ?st1 = "\<lparr>attempts = 1, fetches = [(series_url 738886, pair_params ''USD'' ''EUR'')]\<rparr>"
  have neq: "upper ''USD'' \<noteq> upper ''EUR''" by (simp add: upper_codes)
  have "get_json ?up net0 (series_url 738886) (pair_params ''USD'' ''EUR'')
      = (Inr (PDict [(''rates'', PDict items)]),
         \<lparr>attempts = attempts net0 + 1,
           fetches = fetches net0 @ [(series_url 738886, pair_params ''USD'' ''EUR'')]\<rparr>)"
    by (rule get_json_always) (simp add: series_with_def series_url_not_latest)
  then have fetch: "get_json ?up net0 (series_url 738886) (pair_params (upper ''USD'') (upper ''EUR''))
      = (Inr (PDict [(''rates'', PDict items)]), ?st1)"
    by (simp add: net0_def upper_codes)
  have rates: "py_get (PDict [(''rates'', PDict items)]) ''rates'' (PDict []) = Inr (PDict items)"
    by (simp add: py_get_def)
  have rm': "build_rate_map (upper ''EUR'') items Map.empty = Inr rate_map"
    using rm by (simp add: upper_codes)
  have "get_json ?up ?st1 latest_url (pair_params ''USD'' ''EUR'')
      = (Inr (PDict [(''rates'', PDict [(''EUR'', PInt 2)])]),
         \<lparr>attempts = attempts ?st1 + 1,
           fetches = fetches ?st1 @ [(latest_url, pair_params ''USD'' ''EUR'')]\<rparr>)"
    by (rule get_json_always) (simp add: series_with_def)
  then have cur: "get_current_rate ?up ?st1 (upper ''USD'') (upper ''EUR'')
      = (Inr (Dec False 2 0),
         \<lparr>attempts = 2, fetches = [(series_url 738886, pair_params ''USD'' ''EUR''),
                                   (latest_url, pair_params ''USD'' ''EUR'')]\<rparr>)"
    by (simp add: get_current_rate_def Let_def upper_codes latest_url_def pair_params_def py_get_def
        ebind_def to_decimal_def decimal_of_str_str_int)
  show ?thesis
    unfolding get_monthly_rates_unfold [OF neq fetch rates rm'] cur
    by (simp add: iso_ends split: option.splits)
qed

lemma rate_map_one_day:
  "build_rate_map ''EUR'' [(d, PDict [(''EUR'', PInt 3)])] Map.empty = Inr [d \<mapsto> Dec False 3 0]"
  by (simp add: py_in_def py_subscript_def ebind_def to_decimal_def decimal_of_str_str_int)



text \<open>
  Claim C3 says that the live-rate fallback runs only when the upstream returned no data at
  all for the window. On the code the test is \<^verbatim>\<open>last_val is None\<close> at a day without
  upstream value, which holds at the first day of the window whenever that day is missing:
  with an upstream value for 2023-12-04 only, in the window from 2023-12-03 to 2024-01-01,
  the live rate (2) is fetched and fills the first day.
\<close>

theorem fallback_with_upstream_data_counterexample:
  "get_monthly_rates
     (series_with [(''2023-12-04'', PDict [(''EUR'', PInt 3)])]
        (PDict [(''rates'', PDict [(''EUR'', PInt 2)])]))
     738886 net0 ''USD'' ''EUR''
   = (Inr (Some (Dec False 2 0) # replicate 29 (Some (Dec False 3 0))),
      \<lparr>attempts = 2, fetches = [(series_url 738886, pair_params ''USD'' ''EUR''),
                                (latest_url, pair_params ''USD'' ''EUR'')]\<rparr>)"
  unfolding series_with_run [OF rate_map_one_day]
  by (simp add: win eval_nat_numeral)

text \<open>
  Claim C3, amended. In \<^verbatim>\<open>get_monthly_rates\<close> for base \<open>\<noteq>\<close> target, after a time-series
  answer whose rates convert, the live \<^verbatim>\<open>get_current_rate\<close> fallback is invoked exactly when
  the first day of the window, \<open>today - 29\<close>, has no upstream value (whether or not later
  days have one), and then exactly once, at that day: the log of fetches grows by that one
  latest-rate request, an exception of the call ends the series, and its value is the
  last known value carried forward over the gap days until the first day with an
  upstream value. When the first day has an upstream value no live rate is fetched.
\<close>

theorem fallback_iff_first_date_missing:
  assumes "upper b \<noteq> upper t"
    and "get_json up st (series_url today) (pair_params (upper b) (upper t)) = (Inr data, st1)"
    and "py_get data ''rates'' (PDict []) = Inr (PDict items)"
    and "build_rate_map (upper t) items Map.empty = Inr rate_map"
  shows "get_monthly_rates up today st b t =
     (case rate_map (isoformat (today - 29)) of
        Some v \<Rightarrow> (Inr (map Some (forward_fill rate_map (window today) v)), st1)
      | None \<Rightarrow>
          (case get_current_rate up st1 (upper b) (upper t) of
             (Inl e, st2) \<Rightarrow> (Inl e, st2)
           | (Inr r, st2) \<Rightarrow> (Inr (map Some (forward_fill rate_map (window today) r)), st2))) \<and>
     fetches (snd (get_monthly_rates up today st b t))
       = fetches st1 @
         (if rate_map (isoformat (today - 29)) = None
          then [(latest_url, pair_params (upper b) (upper t))] else [])"
proof -
  have u: "get_monthly_rates up today st b t =
     (case rate_map (isoformat (today - 29)) of
        Some v \<Rightarrow> (Inr (map Some (forward_fill rate_map (window today) v)), st1)
      | None \<Rightarrow>
          (case get_current_rate up st1 (upper b) (upper t) of
             (Inl e, st2) \<Rightarrow> (Inl e, st2)
           | (Inr r, st2) \<Rightarrow> (Inr (map Some (forward_fill rate_map (window today) r)), st2)))"
    using assms by (rule get_monthly_rates_unfold)
  have neq: "upper (upper b) \<noteq> upper (upper t)" using assms(1) by (simp add: upper_idem)
  have f: "fetches (snd (get_current_rate up st1 (upper b) (upper t)))
      = fetches st1 @ [(latest_url, pair_params (upper b) (upper t))]"
    using get_current_rate_fetches [OF neq, of up st1] by (simp add: upper_idem)
  have "fetches (snd (get_monthly_rates up today st b t))
       = fetches st1 @
         (if rate_map (isoformat (today - 29)) = None
          then [(latest_url, pair_params (upper b) (upper t))] else [])"
  proof (cases "rate_map (isoformat (today - 29))")
    case (Some v)
    then show ?thesis by (simp add: u)
  next
    case None
    obtain r st2 where c: "get_current_rate up st1 (upper b) (upper t) = (r, st2)"
      by (cases "get_current_rate up st1 (upper b) (upper t)")
    with f have "fetches st2 = fetches st1 @ [(latest_url, pair_params (upper b) (upper t))]"
      by simp
    with None c show ?thesis by (cases r) (simp_all add: u)
  qed
  with u show ?thesis by simp
qed

theorem fallback_iff_first_date_missing_witness:
  "get_monthly_rates
     (series_with [(''2023-12-03'', PDict [(''EUR'', PInt 3)])]
        (PDict [(''rates'', PDict [(''EUR'', PInt 2)])]))
     738886 net0 ''USD'' ''EUR''
   = (Inr (replicate 30 (Some (Dec False 3 0))),
      \<lparr>attempts = 1, fetches = [(series_url 738886, pair_params ''USD'' ''EUR'')]\<rparr>) \<and>
   fetches (snd (get_monthly_rates
     (series_with [(''2023-12-03'', PDict [(''EUR'', PInt 3)])]
        (PDict [(''rates'', PDict [(''EUR'', PInt 2)])]))
     738886 net0 ''USD'' ''EUR''))
   = [(series_url 738886, pair_params ''USD'' ''EUR'')]"
proof -
  let ?items = "[(''2023-12-03'', PDict [(''EUR'', PInt 3)])]"
  let ?up = "series_with ?items (PDict [(''rates'', PDict [(''EUR'', PInt 2)])])"
  let ?st1 = "\<lparr>attempts = 1, fetches = [(series_url 738886, pair_params ''USD'' ''EUR'')]\<rparr>"
  have neq: "upper ''USD'' \<noteq> upper ''EUR''" by (simp add: upper_codes)
  have "get_json ?up net0 (series_url 738886) (pair_params ''USD'' ''EUR'')
      = (Inr (PDict [(''rates'', PDict ?items)]),
         \<lparr>attempts = attempts net0 + 1,
           fetches = fetches net0 @ [(series_url 738886, pair_params ''USD'' ''EUR'')]\<rparr>)"
    by (rule get_json_always) (simp add: series_with_def series_url_not_latest)
  then have fetch: "get_json ?up net0 (series_url 738886) (pair_params (upper ''USD'') (upper ''EUR''))
      = (Inr (PDict [(''rates'', PDict ?items)]), ?st1)"
    by (simp add: net0_def upper_codes)
  have rates: "py_get (PDict [(''rates'', PDict ?items)]) ''rates'' (PDict []) = Inr (PDict ?items)"
    by (simp add: py_get_def)
  have rm: "build_rate_map (upper ''EUR'') ?items Map.empty = Inr [''2023-12-03'' \<mapsto> Dec False 3 0]"
    unfolding upper_codes by (rule rate_map_one_day)
  show ?thesis
    using fallback_iff_first_date_missing [OF neq fetch rates rm]
    by (simp add: iso_ends win eval_nat_numeral)
qed

end
